theory Spec2Isabelle
  imports Complex_Main
begin

section \<open>Values, exceptions and dictionaries\<close>

text \<open>
  The service (\<^verbatim>\<open>app/server.py\<close>) is Python glue around three external objects: a
  sentence-embedding model, a serialized scikit-learn classifier and the loguru logger.
  Python values that the handler builds, logs and returns are modelled by \<open>pyval\<close>.
  A \<^verbatim>\<open>dict\<close> with string keys is an association list in insertion order, each key
  at most once; a \<^verbatim>\<open>float\<close> is the real number it denotes (the handler does no
  arithmetic on scores, and only one subtraction and one multiplication on clock readings).
\<close>

datatype pyval =
    PNone
  | PBool bool
  | PInt int
  | PFloat real
  | PStr string
  | PList "pyval list"
  | PDict "(string \<times> pyval) list"

type_synonym 'a dict = "(string \<times> 'a) list"

text \<open>
  Exceptions are values. \<open>KeyError\<close> and \<open>IndexError\<close> are the two that the source's own
  subscripts can raise; \<open>Raised name\<close> is any exception raised inside an external library
  call (embedding, classifier); \<open>ResponseValidationError\<close> is the one the serving framework
  raises when what the handler returned does not fit the declared response model.
\<close>

datatype exn = KeyError string | IndexError | Raised string | ResponseValidationError

text \<open>\<^verbatim>\<open>d[k]\<close>: the value under \<open>k\<close>, or \<open>KeyError\<close>.\<close>

definition getitem :: "'a dict \<Rightarrow> string \<Rightarrow> exn + 'a" where
  "getitem d k = (case map_of d k of None \<Rightarrow> Inl (KeyError k) | Some v \<Rightarrow> Inr v)"

text \<open>
  \<^verbatim>\<open>d[k] = v\<close>: an existing key keeps its position and takes the new value, a new key
  goes to the end.
\<close>

fun setitem :: "string \<Rightarrow> 'a \<Rightarrow> 'a dict \<Rightarrow> 'a dict" where
  "setitem k v [] = [(k, v)]"
| "setitem k v ((k', v') # d) = (if k' = k then (k, v) # d else (k', v') # setitem k v d)"

text \<open>
  \<^verbatim>\<open>dict(zip(ks, vs))\<close>: the pairs are inserted from left to right, \<^verbatim>\<open>zip\<close> stops at
  the shorter list, and a key that occurs twice keeps its last value.
\<close>

fun dict_update_pairs :: "(string \<times> 'a) list \<Rightarrow> 'a dict \<Rightarrow> 'a dict" where
  "dict_update_pairs [] d = d"
| "dict_update_pairs ((k, v) # kvs) d = dict_update_pairs kvs (setitem k v d)"

definition dict_zip :: "string list \<Rightarrow> 'a list \<Rightarrow> 'a dict" where
  "dict_zip ks vs = dict_update_pairs (zip ks vs) []"

definition keys :: "'a dict \<Rightarrow> string list" where
  "keys d = map fst d"

definition values_of :: "'a dict \<Rightarrow> 'a list" where
  "values_of d = map snd d"

section \<open>The request and the external model objects\<close>

text \<open>
  \<^verbatim>\<open>class PredictRequest(BaseModel)\<close>: four fields, each a \<^verbatim>\<open>str\<close>.
  \<^verbatim>\<open>request.dict()\<close> lists them in declaration order.
\<close>

record PredictRequest =
  source :: string
  url :: string
  title :: string
  description :: string

definition request_dict_of :: "PredictRequest \<Rightarrow> pyval dict" where
  "request_dict_of request =
     [(''source'', PStr (source request)),
      (''url'', PStr (url request)),
      (''title'', PStr (title request)),
      (''description'', PStr (description request))]"

text \<open>
  The objects loaded in \<^verbatim>\<open>NewsCategoryClassifier.__init__\<close> are not code of the
  repository; they are parameters of the model. \<open>st_encode\<close> is
  \<^verbatim>\<open>SentenceTransformer.encode\<close>; \<open>classes\<close> (the attribute \<^verbatim>\<open>classes_\<close>), \<open>est_predict_proba\<close> and
  \<open>est_predict\<close> are the label list and the two methods of the classifier read from
  the joblib file. Each call may raise. The artifact has no mutable state after load, so a
  call is a function of its argument. The classes are strings (they become the keys of the
  scores) and probabilities are floats; a 2-d array is the list of its rows. A prediction is
  any Python value: \<^verbatim>\<open>predict_label\<close> is annotated \<^verbatim>\<open>-> str\<close>, but neither it nor
  the handler checks what the classifier answers.
\<close>

type_synonym vec = "real list"

record artifact =
  st_encode :: "pyval \<Rightarrow> exn + vec"
  classes :: "string list"
  est_predict_proba :: "vec list \<Rightarrow> exn + real list list"
  est_predict :: "vec list \<Rightarrow> exn + pyval list"

section \<open>Process state and the per-request environment\<close>

text \<open>
  \<open>logged\<close> holds the records handed to the logger, oldest first (\<^verbatim>\<open>logger.info\<close>
  appends one). \<open>encoded\<close> is the trace of the documents handed to
  \<^verbatim>\<open>SentenceTransformer.encode\<close>, oldest first; the source keeps no such list, it is
  recorded here so that claims about how often the pipeline runs can be stated.
\<close>

datatype log_record = Info pyval

record server_state =
  logged :: "log_record list"
  encoded :: "pyval list"

text \<open>
  What one run of the handler reads from its environment: the two readings of
  \<^verbatim>\<open>time.monotonic()\<close> (lines 158 and 168) and the string that
  \<^verbatim>\<open>datetime.datetime.now().strftime("%Y:%m:%d %H:%M:%S")\<close> evaluates to (line 165).
\<close>

record env =
  t_start :: real
  t_end :: real
  now_str :: string

definition logger_info :: "pyval \<Rightarrow> server_state \<Rightarrow> server_state" where
  "logger_info msg s = s\<lparr>logged := logged s @ [Info msg]\<rparr>"

definition note_encode :: "pyval \<Rightarrow> server_state \<Rightarrow> server_state" where
  "note_encode doc s = s\<lparr>encoded := encoded s @ [doc]\<rparr>"

section \<open>Featurizer, pipeline and classifier\<close>

text \<open>
  \<^verbatim>\<open>TransformerFeaturizer.transform\<close>: the loop over \<open>X\<close> appends the encoding of
  each document to \<open>X_t\<close>; an exception of \<^verbatim>\<open>encode\<close> leaves the loop.
\<close>

fun transform_loop ::
  "artifact \<Rightarrow> pyval list \<Rightarrow> vec list \<Rightarrow> server_state \<Rightarrow> (exn + vec list) \<times> server_state" where
  "transform_loop A [] X_t s = (Inr X_t, s)"
| "transform_loop A (doc # X) X_t s =
     (case st_encode A doc of
        Inl e \<Rightarrow> (Inl e, note_encode doc s)
      | Inr v \<Rightarrow> transform_loop A X (X_t @ [v]) (note_encode doc s))"

definition transform :: "artifact \<Rightarrow> pyval list \<Rightarrow> server_state \<Rightarrow> (exn + vec list) \<times> server_state" where
  "transform A X s = transform_loop A X [] s"

text \<open>
  The scikit-learn \<^verbatim>\<open>Pipeline\<close> of \<^verbatim>\<open>__init__\<close> has two steps: its
  \<^verbatim>\<open>predict_proba\<close> and \<^verbatim>\<open>predict\<close> run the featurizer's \<^verbatim>\<open>transform\<close> and hand
  the result to the classifier's method of the same name; \<^verbatim>\<open>pipeline.classes_\<close> is
  the classifier's.
\<close>

definition pipeline_predict_proba ::
  "artifact \<Rightarrow> pyval list \<Rightarrow> server_state \<Rightarrow> (exn + real list list) \<times> server_state" where
  "pipeline_predict_proba A X s =
     (case transform A X s of
        (Inl e, s') \<Rightarrow> (Inl e, s')
      | (Inr X_t, s') \<Rightarrow> (est_predict_proba A X_t, s'))"

definition pipeline_predict ::
  "artifact \<Rightarrow> pyval list \<Rightarrow> server_state \<Rightarrow> (exn + pyval list) \<times> server_state" where
  "pipeline_predict A X s =
     (case transform A X s of
        (Inl e, s') \<Rightarrow> (Inl e, s')
      | (Inr X_t, s') \<Rightarrow> (est_predict A X_t, s'))"

text \<open>
  \<^verbatim>\<open>NewsCategoryClassifier.predict_proba\<close>: row 0 of the pipeline's probabilities for
  the one-element batch \<^verbatim>\<open>[model_input["description"]]\<close>, zipped with the classes.
  \<^verbatim>\<open>[0, :]\<close> raises \<open>IndexError\<close> on an array with no row.
\<close>

definition predict_proba ::
  "artifact \<Rightarrow> pyval dict \<Rightarrow> server_state \<Rightarrow> (exn + real dict) \<times> server_state" where
  "predict_proba A model_input s =
     (case getitem model_input ''description'' of
        Inl e \<Rightarrow> (Inl e, s)
      | Inr doc \<Rightarrow>
          (case pipeline_predict_proba A [doc] s of
             (Inl e, s') \<Rightarrow> (Inl e, s')
           | (Inr [], s') \<Rightarrow> (Inl IndexError, s')
           | (Inr (probs # _), s') \<Rightarrow> (Inr (dict_zip (classes A) probs), s')))"

text \<open>
  \<^verbatim>\<open>NewsCategoryClassifier.predict_label\<close>: element 0 of the pipeline's prediction for
  the same one-element batch.
\<close>

definition predict_label ::
  "artifact \<Rightarrow> pyval dict \<Rightarrow> server_state \<Rightarrow> (exn + pyval) \<times> server_state" where
  "predict_label A model_input s =
     (case getitem model_input ''description'' of
        Inl e \<Rightarrow> (Inl e, s)
      | Inr doc \<Rightarrow>
          (case pipeline_predict A [doc] s of
             (Inl e, s') \<Rightarrow> (Inl e, s')
           | (Inr [], s') \<Rightarrow> (Inl IndexError, s')
           | (Inr (pred # _), s') \<Rightarrow> (Inr pred, s')))"

section \<open>The handlers\<close>

text \<open>A dictionary from labels to floats as a Python value.\<close>

definition scores_value :: "real dict \<Rightarrow> pyval" where
  "scores_value scores = PDict (map (\<lambda>(k, p). (k, PFloat p)) scores)"

text \<open>
  \<^verbatim>\<open>response_dict\<close> (lines 160 to 163): the scores and the label as the two classifier
  calls returned them.
\<close>

definition response_dict_of :: "real dict \<Rightarrow> pyval \<Rightarrow> pyval dict" where
  "response_dict_of scores label =
     [(''scores'', scores_value scores), (''label'', label)]"

text \<open>\<^verbatim>\<open>log_data\<close> (lines 164 to 169).\<close>

definition log_data_of :: "env \<Rightarrow> pyval dict \<Rightarrow> pyval dict \<Rightarrow> pyval dict" where
  "log_data_of ev request_dict response_dict =
     [(''timestamp'', PStr (now_str ev)),
      (''request'', PDict request_dict),
      (''prediction'', PDict response_dict),
      (''latency'', PFloat (1000 * (t_end ev - t_start ev)))]"

text \<open>
  \<^verbatim>\<open>predict\<close> (the handler of \<^verbatim>\<open>POST /predict\<close>, lines 145 to 171). The dictionary
  display evaluates \<^verbatim>\<open>clf.predict_proba\<close> first and \<^verbatim>\<open>clf.predict_label\<close> second;
  an exception of either leaves the handler before \<^verbatim>\<open>logger.info\<close>. The handler
  returns \<^verbatim>\<open>response_dict\<close> itself, after it has logged: fitting it to
  \<^verbatim>\<open>PredictResponse\<close> is left to the framework (\<^verbatim>\<open>response_model\<close>, line 144).
\<close>

definition predict ::
  "artifact \<Rightarrow> env \<Rightarrow> PredictRequest \<Rightarrow> server_state \<Rightarrow> (exn + pyval dict) \<times> server_state" where
  "predict clf ev request s =
     (let request_dict = request_dict_of request in
      case predict_proba clf request_dict s of
        (Inl e, s1) \<Rightarrow> (Inl e, s1)
      | (Inr scores, s1) \<Rightarrow>
          (case predict_label clf request_dict s1 of
             (Inl e, s2) \<Rightarrow> (Inl e, s2)
           | (Inr label, s2) \<Rightarrow>
               (let response_dict = response_dict_of scores label;
                    log_data = log_data_of ev request_dict response_dict
                in (Inr response_dict, logger_info (PDict log_data) s2))))"

text \<open>\<^verbatim>\<open>read_root\<close> (the handler of \<^verbatim>\<open>GET /\<close>): no argument is read, no state is touched.\<close>

definition read_root :: "server_state \<Rightarrow> pyval dict \<times> server_state" where
  "read_root s = ([(''Hello'', PStr ''World'')], s)"

text \<open>
  \<^verbatim>\<open>startup_event\<close> and \<^verbatim>\<open>shutdown_event\<close> each hand one message to the logger
  (\<^verbatim>\<open>logger.add\<close> registers the file of \<^verbatim>\<open>GLOBAL_CONFIG["service"]["log_destination"]\<close>
  as a sink of the same logger).
\<close>

definition startup_event :: "server_state \<Rightarrow> server_state" where
  "startup_event s = logger_info (PStr ''Setup completed'') s"

definition shutdown_event :: "server_state \<Rightarrow> server_state" where
  "shutdown_event s = logger_info (PStr ''Shutting down application'') s"

section \<open>Request validation by the serving framework\<close>

text \<open>
  The body of \<^verbatim>\<open>POST /predict\<close> is decoded and validated by the serving framework
  (FastAPI with pydantic) before the handler is called. That code is not in the repository;
  the repository's part is the declaration of \<^verbatim>\<open>PredictRequest\<close>: four required fields,
  each annotated \<^verbatim>\<open>str\<close>, with no default, no length bound and no validator of its
  own. The definitions of this section follow what the spec says of validation (sections 3,
  4.3, 7 and 8): a request is
  \<^verbatim>\<open>{source: string, url: string, title: string, description: string}\<close>; the handler
  receives a validated request object; a malformed body is a validation failure, rejected
  before the pipeline is reached, with a client-error response and no log record; an
  exception during inference propagates as a server error.
\<close>

text \<open>
  Modelled from the spec: the ways in which a body fails validation (the framework's
  validation errors are missing): the body is not an object, a required field is missing,
  a field's value is not taken as a string.
\<close>

datatype validation_error = NotADict | Missing string | NotAString string

text \<open>Modelled from the spec: the four fields of a request, all required.\<close>

definition required_fields :: "string list" where
  "required_fields = [''source'', ''url'', ''title'', ''description'']"

text \<open>
  Modelled from the spec: the validation of one field (the framework's field validation
  is missing). How a value that is not a string is treated differs between versions of the
  framework (some convert numbers), so the check of the value is the parameter
  \<open>str_validator\<close>: it returns the string the field takes, or \<open>None\<close> when the value is
  refused.
\<close>

definition validate_field ::
  "(pyval \<Rightarrow> string option) \<Rightarrow> pyval dict \<Rightarrow> string \<Rightarrow> validation_error + string" where
  "validate_field str_validator d name =
     (case map_of d name of
        None \<Rightarrow> Inl (Missing name)
      | Some v \<Rightarrow>
          (case str_validator v of
             None \<Rightarrow> Inl (NotAString name)
           | Some x \<Rightarrow> Inr x))"

text \<open>
  Modelled from the spec: the errors among the results of the fields (the framework's
  collection of validation errors is missing).
\<close>

definition errors_of :: "(validation_error + string) list \<Rightarrow> validation_error list" where
  "errors_of rs = concat (map (\<lambda>r. case r of Inl e \<Rightarrow> [e] | Inr x \<Rightarrow> []) rs)"

text \<open>
  Modelled from the spec: the validation of a decoded body against \<^verbatim>\<open>PredictRequest\<close>
  (the framework's model validation is missing). Fields other than the four are ignored.
\<close>

definition validate_request ::
  "(pyval \<Rightarrow> string option) \<Rightarrow> pyval \<Rightarrow> validation_error list + PredictRequest" where
  "validate_request str_validator body =
     (case body of
        PDict d \<Rightarrow>
          (case (validate_field str_validator d ''source'',
                 validate_field str_validator d ''url'',
                 validate_field str_validator d ''title'',
                 validate_field str_validator d ''description'') of
             (Inr a, Inr b, Inr c, Inr x) \<Rightarrow>
               Inr \<lparr>source = a, url = b, title = c, description = x\<rparr>
           | (ra, rb, rc, rx) \<Rightarrow> Inl (errors_of [ra, rb, rc, rx]))
      | _ \<Rightarrow> Inl [NotADict])"

text \<open>
  Modelled from the spec: the three answers to \<^verbatim>\<open>POST /predict\<close> (the framework's
  responses are missing): the response of the handler, a client error with the validation
  errors, a server error for an exception that left the handler.
\<close>

datatype http_response =
    OK "pyval dict"
  | UnprocessableEntity "validation_error list"
  | InternalServerError exn

text \<open>
  Modelled from the spec: the fitting of what the handler returned to the response model
  (the framework's response validation is missing). The spec's response is
  \<^verbatim>\<open>{scores: mapping, label: string}\<close>, declared in the source as \<^verbatim>\<open>PredictResponse\<close>
  (\<^verbatim>\<open>scores: dict\<close>, \<^verbatim>\<open>label: str\<close>) and named as \<^verbatim>\<open>response_model\<close> of the route.
  The scores must be a dictionary and the label must pass the same field validator as a
  request field; the response sent holds the two validated fields. The framework does this
  after the handler has returned.
\<close>

definition validate_response :: "(pyval \<Rightarrow> string option) \<Rightarrow> pyval dict \<Rightarrow> exn + pyval dict" where
  "validate_response str_validator returned =
     (case (map_of returned ''scores'', map_of returned ''label'') of
        (Some (PDict scores), Some label) \<Rightarrow>
          (case str_validator label of
             None \<Rightarrow> Inl ResponseValidationError
           | Some x \<Rightarrow> Inr [(''scores'', PDict scores), (''label'', PStr x)])
      | _ \<Rightarrow> Inl ResponseValidationError)"

text \<open>
  Modelled from the spec: the route \<^verbatim>\<open>POST /predict\<close> as the framework serves it (the
  framework's dispatch to the handler is missing). A body that fails validation is answered
  with a client error and the handler is not called; otherwise the handler runs. An
  exception it lets through is answered with a server error, and so is a returned value
  that does not fit the response model; in the second case the handler has already run to
  its end.
\<close>

definition post_predict ::
  "(pyval \<Rightarrow> string option) \<Rightarrow> artifact \<Rightarrow> env \<Rightarrow> pyval \<Rightarrow> server_state
     \<Rightarrow> http_response \<times> server_state" where
  "post_predict str_validator clf ev body s =
     (case validate_request str_validator body of
        Inl errs \<Rightarrow> (UnprocessableEntity errs, s)
      | Inr request \<Rightarrow>
          (case predict clf ev request s of
             (Inl e, s') \<Rightarrow> (InternalServerError e, s')
           | (Inr returned, s') \<Rightarrow>
               (case validate_response str_validator returned of
                  Inl e \<Rightarrow> (InternalServerError e, s')
                | Inr response \<Rightarrow> (OK response, s'))))"

text \<open>
  Modelled from the spec: what a malformed body is (the framework's validation is missing).
  A body is malformed when it is not an object, or when one of the four required fields is
  missing or holds a value that the field validator refuses.
\<close>

definition malformed :: "(pyval \<Rightarrow> string option) \<Rightarrow> pyval \<Rightarrow> bool" where
  "malformed str_validator body =
     (case body of
        PDict d \<Rightarrow>
          list_ex (\<lambda>name. case map_of d name of
                             None \<Rightarrow> True
                           | Some v \<Rightarrow> str_validator v = None) required_fields
      | _ \<Rightarrow> True)"

text \<open>
  Modelled from the spec: a field declared \<^verbatim>\<open>string\<close> takes every string as it is (the
  framework's string validator is missing); what it does with other values is left open.
\<close>

definition accepts_strings :: "(pyval \<Rightarrow> string option) \<Rightarrow> bool" where
  "accepts_strings str_validator \<longleftrightarrow> (\<forall>x. str_validator (PStr x) = Some x)"

text \<open>Modelled from the spec: the field validator that takes strings and nothing else.\<close>

definition strict_str :: "pyval \<Rightarrow> string option" where
  "strict_str v = (case v of PStr x \<Rightarrow> Some x | _ \<Rightarrow> None)"

section \<open>Contracts of the external classifier\<close>

text \<open>
  What scikit-learn documents of a fitted probabilistic classifier, for the tolerance
  \<open>eps\<close>: \<^verbatim>\<open>classes_\<close> holds each label once; every row of \<^verbatim>\<open>predict_proba\<close> has one
  column per class and sums to 1 within \<open>eps\<close>; every prediction is one of the classes
  (a string). The handler checks none of it.
\<close>

definition classifier_contract :: "artifact \<Rightarrow> real \<Rightarrow> bool" where
  "classifier_contract A eps \<longleftrightarrow>
     distinct (classes A) \<and>
     (\<forall>X P. est_predict_proba A X = Inr P \<longrightarrow>
        (\<forall>row \<in> set P. length row = length (classes A) \<and> \<bar>sum_list row - 1\<bar> \<le> eps)) \<and>
     (\<forall>X preds. est_predict A X = Inr preds \<longrightarrow> set preds \<subseteq> PStr ` set (classes A))"

text \<open>\<open>label\<close> is a key of \<open>scores\<close> whose probability no other key exceeds.\<close>

definition is_argmax :: "real dict \<Rightarrow> string \<Rightarrow> bool" where
  "is_argmax scores label =
     (case map_of scores label of
        None \<Rightarrow> False
      | Some p \<Rightarrow> list_all (\<lambda>(k, q). q \<le> p) scores)"

text \<open>
  When the class \<open>c\<close> that a classifier predicts is the argmax of the probabilities it
  reports, for its classes \<open>cs\<close> and the row \<open>probs\<close> of \<^verbatim>\<open>predict_proba\<close>. Three
  conditions, all needed: \<open>cs\<close> lists each class once; \<open>probs\<close> has one entry per class;
  \<open>c\<close> is the class at the position of an entry of \<open>probs\<close> that no entry exceeds.
  Without the first two the scores, which are \<^verbatim>\<open>dict(zip(cs, probs))\<close>, need not pair
  \<open>c\<close> with that entry. Not every scikit-learn classifier meets the third (the library
  documents that a support vector classifier with probability estimates may not).
\<close>

definition predicts_argmax :: "string list \<Rightarrow> real list \<Rightarrow> string \<Rightarrow> bool" where
  "predicts_argmax cs probs c \<longleftrightarrow>
     distinct cs \<and>
     length probs = length cs \<and>
     (\<exists>j < length probs. c = cs ! j \<and> (\<forall>q \<in> set probs. q \<le> probs ! j))"

section \<open>Concrete inputs\<close>

text \<open>
  A two-class classifier that reports the same row for every document and predicts the
  class of its larger entry; the request of the spec's example; a clock that advances by a
  quarter of a second; the state of a process that has logged nothing.
\<close>

definition demo_clf :: artifact where
  "demo_clf =
     \<lparr>st_encode = (\<lambda>doc. Inr [1, 0]),
      classes = [''BUSINESS'', ''SPORTS''],
      est_predict_proba = (\<lambda>X. Inr (map (\<lambda>v. [3 / 4, 1 / 4]) X)),
      est_predict = (\<lambda>X. Inr (map (\<lambda>v. PStr ''BUSINESS'') X))\<rparr>"

definition demo_request :: PredictRequest where
  "demo_request =
     \<lparr>source = ''bbc'', url = ''http://x'', title = ''t'',
      description = ''stocks rally amid earnings season''\<rparr>"

definition demo_env :: env where
  "demo_env = \<lparr>t_start = 10, t_end = 41 / 4, now_str = ''2023:01:15 12:00:00''\<rparr>"

definition idle :: server_state where
  "idle = \<lparr>logged = [], encoded = []\<rparr>"


text \<open>
  The same classifier, except that \<^verbatim>\<open>predict\<close> answers the class of the smaller entry:
  it keeps the contract above and does not predict the argmax.
\<close>

definition contrary_clf :: artifact where
  "contrary_clf = demo_clf\<lparr>est_predict := (\<lambda>X. Inr (map (\<lambda>v. PStr ''SPORTS'') X))\<rparr>"

text \<open>A classifier whose \<^verbatim>\<open>predict\<close> answers a label that is not among its classes.\<close>

definition stray_clf :: artifact where
  "stray_clf = demo_clf\<lparr>est_predict := (\<lambda>X. Inr (map (\<lambda>v. PStr ''WEATHER'') X))\<rparr>"


text \<open>A classifier whose \<^verbatim>\<open>predict_proba\<close> returns an array with no row.\<close>

definition norow_clf :: artifact where
  "norow_clf = demo_clf\<lparr>est_predict_proba := (\<lambda>X. Inr [])\<rparr>"

text \<open>An embedding model whose \<^verbatim>\<open>encode\<close> raises.\<close>

definition failing_clf :: artifact where
  "failing_clf = demo_clf\<lparr>st_encode := (\<lambda>doc. Inl (Raised ''RuntimeError''))\<rparr>"

section \<open>Dictionaries\<close>

lemma map_of_setitem: "map_of (setitem k v d) = (map_of d)(k \<mapsto> v)"
  by (induction d) (auto simp: fun_eq_iff)

lemma keys_setitem: "set (keys (setitem k v d)) = insert k (set (keys d))"
  by (simp add: keys_def dom_map_of_conv_image_fst [symmetric] map_of_setitem)

lemma setitem_fresh: "k \<notin> set (keys d) \<Longrightarrow> setitem k v d = d @ [(k, v)]"
  by (induction d) (auto simp: keys_def)

lemma dict_update_pairs_fresh:
  "distinct (keys d @ map fst kvs) \<Longrightarrow> dict_update_pairs kvs d = d @ kvs"
proof (induction kvs arbitrary: d)
  case Nil
  then show ?case by simp
next
  case (Cons kv kvs)
  obtain k v where kv: "kv = (k, v)" by (cases kv)
  from Cons.prems kv have fresh: "k \<notin> set (keys d)" by auto
  from Cons.prems kv have "distinct (keys (d @ [(k, v)]) @ map fst kvs)"
    by (auto simp: keys_def)
  then have "dict_update_pairs kvs (d @ [(k, v)]) = (d @ [(k, v)]) @ kvs"
    by (rule Cons.IH)
  with fresh kv show ?case by (simp add: setitem_fresh)
qed

lemma dict_zip_distinct: "distinct ks \<Longrightarrow> dict_zip ks vs = zip ks vs"
  unfolding dict_zip_def
  by (rule dict_update_pairs_fresh [where d = "[]", simplified])
    (simp add: keys_def distinct_zipI1 map_fst_zip_take)

section \<open>The handler, step by step\<close>

lemma transform_single:
  "transform A [doc] s =
     (case st_encode A doc of
        Inl e \<Rightarrow> (Inl e, note_encode doc s)
      | Inr v \<Rightarrow> (Inr [v], note_encode doc s))"
  by (simp add: transform_def split: sum.splits)

lemma getitem_description:
  "getitem (request_dict_of r) ''description'' = Inr (PStr (description r))"
  by (simp add: getitem_def request_dict_of_def)

lemma predict_proba_request:
  "predict_proba A (request_dict_of r) s =
     (case st_encode A (PStr (description r)) of
        Inl e \<Rightarrow> (Inl e, note_encode (PStr (description r)) s)
      | Inr v \<Rightarrow>
          (case est_predict_proba A [v] of
             Inl e \<Rightarrow> (Inl e, note_encode (PStr (description r)) s)
           | Inr [] \<Rightarrow> (Inl IndexError, note_encode (PStr (description r)) s)
           | Inr (probs # rest) \<Rightarrow>
               (Inr (dict_zip (classes A) probs), note_encode (PStr (description r)) s)))"
  by (simp add: predict_proba_def getitem_description pipeline_predict_proba_def
      transform_single split: sum.splits list.splits)

lemma predict_label_request:
  "predict_label A (request_dict_of r) s =
     (case st_encode A (PStr (description r)) of
        Inl e \<Rightarrow> (Inl e, note_encode (PStr (description r)) s)
      | Inr v \<Rightarrow>
          (case est_predict A [v] of
             Inl e \<Rightarrow> (Inl e, note_encode (PStr (description r)) s)
           | Inr [] \<Rightarrow> (Inl IndexError, note_encode (PStr (description r)) s)
           | Inr (pred # rest) \<Rightarrow> (Inr pred, note_encode (PStr (description r)) s)))"
  by (simp add: predict_label_def getitem_description pipeline_predict_def
      transform_single split: sum.splits list.splits)

text \<open>The outcome of the handler is a function of the artifact and the description.\<close>

lemma predict_outcome:
  "fst (predict clf ev r s) =
     (case st_encode clf (PStr (description r)) of
        Inl e \<Rightarrow> Inl e
      | Inr v \<Rightarrow>
          (case est_predict_proba clf [v] of
             Inl e \<Rightarrow> Inl e
           | Inr [] \<Rightarrow> Inl IndexError
           | Inr (probs # rest) \<Rightarrow>
               (case est_predict clf [v] of
                  Inl e \<Rightarrow> Inl e
                | Inr [] \<Rightarrow> Inl IndexError
                | Inr (pred # preds) \<Rightarrow>
                    Inr (response_dict_of (dict_zip (classes clf) probs) pred))))"
  by (simp add: predict_def predict_proba_request predict_label_request Let_def
      split: sum.splits list.splits)

lemma predict_success:
  assumes "predict clf ev r s = (Inr response, s')"
  shows "\<exists>v probs rest pred preds.
           st_encode clf (PStr (description r)) = Inr v \<and>
           est_predict_proba clf [v] = Inr (probs # rest) \<and>
           est_predict clf [v] = Inr (pred # preds) \<and>
           response = response_dict_of (dict_zip (classes clf) probs) pred \<and>
           s' = logger_info (PDict (log_data_of ev (request_dict_of r) response))
                  (note_encode (PStr (description r)) (note_encode (PStr (description r)) s))"
  using assms
  by (auto simp: predict_def predict_proba_request predict_label_request Let_def
      split: sum.splits list.splits)

lemma predict_failure:
  assumes "predict clf ev r s = (Inl e, s')"
  shows "logged s' = logged s"
  using assms
  by (auto simp: predict_def predict_proba_request predict_label_request Let_def note_encode_def
      split: sum.splits list.splits)

text \<open>The run of the handler on the example request with the example classifier.\<close>

lemma demo_run:
  "predict demo_clf demo_env demo_request idle =
     (Inr (response_dict_of [(''BUSINESS'', 3 / 4), (''SPORTS'', 1 / 4)] (PStr ''BUSINESS'')),
      \<lparr>logged =
         [Info (PDict (log_data_of demo_env (request_dict_of demo_request)
            (response_dict_of [(''BUSINESS'', 3 / 4), (''SPORTS'', 1 / 4)]
               (PStr ''BUSINESS''))))],
       encoded =
         [PStr ''stocks rally amid earnings season'',
          PStr ''stocks rally amid earnings season'']\<rparr>)"
  by (simp add: predict_def predict_proba_request predict_label_request Let_def demo_clf_def
      demo_request_def idle_def dict_zip_def note_encode_def logger_info_def)

lemma predict_trace:
  "encoded (snd (predict clf ev r s)) =
     encoded s @
       (case st_encode clf (PStr (description r)) of
          Inl e \<Rightarrow> [PStr (description r)]
        | Inr v \<Rightarrow>
            (case est_predict_proba clf [v] of
               Inl e \<Rightarrow> [PStr (description r)]
             | Inr [] \<Rightarrow> [PStr (description r)]
             | Inr (probs # rest) \<Rightarrow> [PStr (description r), PStr (description r)]))"
  by (simp add: predict_def predict_proba_request predict_label_request Let_def
      note_encode_def logger_info_def split: sum.splits list.splits)

lemma demo_response:
  "predict demo_clf demo_env demo_request idle =
     (Inr [(''scores'', scores_value [(''BUSINESS'', 3 / 4), (''SPORTS'', 1 / 4)]),
           (''label'', PStr ''BUSINESS'')],
      snd (predict demo_clf demo_env demo_request idle))"
  by (simp add: demo_run response_dict_of_def)

lemma keys_zip: "length ks = length vs \<Longrightarrow> keys (zip ks vs) = ks"
  by (simp add: keys_def)

lemma values_zip: "length ks = length vs \<Longrightarrow> values_of (zip ks vs) = vs"
  by (simp add: values_of_def)

lemma float_dict_inject:
  fixes a b :: "real dict"
  assumes "map (\<lambda>(k, p). (k, PFloat p)) a = map (\<lambda>(k, p). (k, PFloat p)) b"
  shows "a = b"
proof -
  have "inj (\<lambda>(k :: string, p :: real). (k, PFloat p))"
    by (auto simp: inj_on_def)
  with assms show "a = b"
    by (simp add: inj_map_eq_map)
qed

lemma demo_contract: "classifier_contract demo_clf (1 / 1000000)"
  by (auto simp: classifier_contract_def demo_clf_def)

lemma demo_outcome:
  "fst (predict demo_clf demo_env demo_request idle) =
     Inr [(''scores'', scores_value [(''BUSINESS'', 3 / 4), (''SPORTS'', 1 / 4)]),
          (''label'', PStr ''BUSINESS'')]"
  by (simp add: demo_run response_dict_of_def)

lemma predict_label_ignores_proba:
  "predict_label (clf\<lparr>est_predict_proba := f\<rparr>) model_input s = predict_label clf model_input s"
  by (simp add: predict_label_def pipeline_predict_def transform_def
      split: sum.splits list.splits)

lemma post_predict_valid:
  "validate_request str_validator body = Inr r \<Longrightarrow>
   snd (post_predict str_validator clf ev body s) = snd (predict clf ev r s)"
  by (simp add: post_predict_def split: prod.splits sum.splits)

section \<open>Properties\<close>

text \<open>
  C8. Every \<^verbatim>\<open>GET /\<close> request returns exactly the JSON object \<^verbatim>\<open>{"Hello": "World"}\<close>,
  in every process state, and leaves that state as it was.
\<close>

theorem read_root_constant:
  "read_root s = ([(''Hello'', PStr ''World'')], s)"
  by (simp add: read_root_def)

text \<open>
  C1, as stated, fails: the handler returns whatever the classifier answers. With a
  classifier whose \<^verbatim>\<open>predict\<close> answers a label outside its \<^verbatim>\<open>classes_\<close>, the request is
  served and the returned label is not in the classifier's label set.
\<close>

theorem label_outside_classes_counterexample:
  "fst (predict stray_clf demo_env demo_request idle) =
     Inr [(''scores'', PDict [(''BUSINESS'', PFloat (3 / 4)), (''SPORTS'', PFloat (1 / 4))]),
          (''label'', PStr ''WEATHER'')] \<and>
   ''WEATHER'' \<notin> set (classes stray_clf)"
  by (simp add: predict_outcome stray_clf_def demo_clf_def demo_request_def dict_zip_def
      response_dict_of_def scores_value_def)

text \<open>
  C1, amended. For every valid request that the handler serves, with a classifier that keeps
  the scikit-learn contract for the tolerance \<open>eps\<close> (\<^verbatim>\<open>classes_\<close> lists each class once,
  every row of \<^verbatim>\<open>predict_proba\<close> has one entry per class and sums to 1 within \<open>eps\<close>,
  every prediction is one of the classes): the response is the dictionary of a scores
  mapping and a label, the label is one of the classes, the keys of the scores are exactly
  the classes (each once), and the score values sum to 1 within \<open>eps\<close>. The handler
  checks none of this; it passes on what the classifier answers.
\<close>

theorem response_within_label_set:
  assumes contract: "classifier_contract clf eps"
    and served: "predict clf ev request s = (Inr response, s')"
  shows "\<exists>scores label.
           response =
             [(''scores'', PDict (map (\<lambda>(k, p). (k, PFloat p)) scores)),
              (''label'', PStr label)] \<and>
           label \<in> set (classes clf) \<and>
           set (keys scores) = set (classes clf) \<and>
           distinct (keys scores) \<and>
           \<bar>sum_list (values_of scores) - 1\<bar> \<le> eps"
proof -
  from predict_success [OF served] obtain v probs rest pred preds where
    proba: "est_predict_proba clf [v] = Inr (probs # rest)" and
    pred: "est_predict clf [v] = Inr (pred # preds)" and
    response: "response = response_dict_of (dict_zip (classes clf) probs) pred"
    by blast
  from contract have distinct: "distinct (classes clf)"
    by (simp add: classifier_contract_def)
  from contract proba have "\<forall>row \<in> set (probs # rest).
      length row = length (classes clf) \<and> \<bar>sum_list row - 1\<bar> \<le> eps"
    unfolding classifier_contract_def by blast
  then have row: "length probs = length (classes clf)"
    and total: "\<bar>sum_list probs - 1\<bar> \<le> eps"
    by simp_all
  from contract pred have "set (pred # preds) \<subseteq> PStr ` set (classes clf)"
    unfolding classifier_contract_def by blast
  then obtain label where label: "pred = PStr label" and member: "label \<in> set (classes clf)"
    by auto
  have scores: "dict_zip (classes clf) probs = zip (classes clf) probs"
    using distinct by (rule dict_zip_distinct)
  show ?thesis
  proof (intro exI conjI)
    show "response =
        [(''scores'', PDict (map (\<lambda>(k, p). (k, PFloat p)) (zip (classes clf) probs))),
         (''label'', PStr label)]"
      using response scores label by (simp add: response_dict_of_def scores_value_def)
    show "label \<in> set (classes clf)" by (rule member)
    show "set (keys (zip (classes clf) probs)) = set (classes clf)"
      using row by (simp add: keys_zip)
    show "distinct (keys (zip (classes clf) probs))"
      using row distinct by (simp add: keys_zip)
    show "\<bar>sum_list (values_of (zip (classes clf) probs)) - 1\<bar> \<le> eps"
      using row total by (simp add: values_zip)
  qed
qed

theorem response_within_label_set_witness:
  "classifier_contract demo_clf (1 / 1000000) \<and>
   predict demo_clf demo_env demo_request idle =
     (Inr [(''scores'', PDict [(''BUSINESS'', PFloat (3 / 4)), (''SPORTS'', PFloat (1 / 4))]),
           (''label'', PStr ''BUSINESS'')],
      snd (predict demo_clf demo_env demo_request idle)) \<and>
   ''BUSINESS'' \<in> set (classes demo_clf) \<and>
   set (keys [(''BUSINESS'', 3 / 4 :: real), (''SPORTS'', 1 / 4)]) = set (classes demo_clf) \<and>
   \<bar>sum_list (values_of [(''BUSINESS'', 3 / 4 :: real), (''SPORTS'', 1 / 4)]) - 1\<bar>
     \<le> 1 / 1000000"
proof -
  have run: "predict demo_clf demo_env demo_request idle =
     (Inr [(''scores'', PDict [(''BUSINESS'', PFloat (3 / 4)), (''SPORTS'', PFloat (1 / 4))]),
           (''label'', PStr ''BUSINESS'')],
      snd (predict demo_clf demo_env demo_request idle))"
    by (simp add: demo_run response_dict_of_def scores_value_def)
  from response_within_label_set [OF demo_contract run]
  obtain scores label where eq:
    "[(''scores'', PDict [(''BUSINESS'', PFloat (3 / 4)), (''SPORTS'', PFloat (1 / 4))]),
      (''label'', PStr ''BUSINESS'')] =
     [(''scores'', PDict (map (\<lambda>(k, p). (k, PFloat p)) scores)), (''label'', PStr label)]"
    and facts: "label \<in> set (classes demo_clf)" "set (keys scores) = set (classes demo_clf)"
      "distinct (keys scores)" "\<bar>sum_list (values_of scores) - 1\<bar> \<le> 1 / 1000000"
    by (elim exE conjE) (rule that; assumption)
  from eq have label: "label = ''BUSINESS''"
    by simp
  from eq have "[(''BUSINESS'', PFloat (3 / 4)), (''SPORTS'', PFloat (1 / 4))] =
      map (\<lambda>(k, p). (k, PFloat p)) scores"
    by auto
  then have same: "map (\<lambda>(k, p). (k, PFloat p)) scores =
      map (\<lambda>(k, p). (k, PFloat p)) [(''BUSINESS'', 3 / 4), (''SPORTS'', 1 / 4)]"
    by simp
  from same have scores: "scores = [(''BUSINESS'', 3 / 4), (''SPORTS'', 1 / 4)]"
    by (rule float_dict_inject)
  from facts show ?thesis
    unfolding scores label using demo_contract run by simp
qed

text \<open>
  C2, as the spec states it, fails: with a classifier that keeps the contract and answers
  \<^verbatim>\<open>predict\<close> with a class other than the one of the largest probability, the returned
  label is not the argmax of the returned scores. The handler takes the label from
  \<^verbatim>\<open>clf.predict_label\<close>, a call of its own, and never compares it with the scores.
\<close>

theorem label_not_argmax_counterexample:
  "classifier_contract contrary_clf 0 \<and>
   fst (predict contrary_clf demo_env demo_request idle) =
     Inr [(''scores'', scores_value [(''BUSINESS'', 3 / 4), (''SPORTS'', 1 / 4)]),
          (''label'', PStr ''SPORTS'')] \<and>
   \<not> is_argmax [(''BUSINESS'', 3 / 4), (''SPORTS'', 1 / 4)] ''SPORTS''"
proof (intro conjI)
  show "classifier_contract contrary_clf 0"
    by (auto simp: classifier_contract_def contrary_clf_def demo_clf_def)
  show "fst (predict contrary_clf demo_env demo_request idle) =
     Inr [(''scores'', scores_value [(''BUSINESS'', 3 / 4), (''SPORTS'', 1 / 4)]),
          (''label'', PStr ''SPORTS'')]"
    by (simp add: predict_outcome contrary_clf_def demo_clf_def demo_request_def
        dict_zip_def response_dict_of_def)
  show "\<not> is_argmax [(''BUSINESS'', 3 / 4), (''SPORTS'', 1 / 4)] ''SPORTS''"
    by (simp add: is_argmax_def)
qed

text \<open>
  C2, amended. For every valid request that the handler serves, whatever the classifier:
  the returned label is the first prediction that the classifier's \<^verbatim>\<open>predict\<close> gives for
  the embedded description, and the returned scores are \<^verbatim>\<open>classes_\<close> zipped with the first
  row of its \<^verbatim>\<open>predict_proba\<close> for the same embedding. The label is the argmax of the
  returned scores whenever \<^verbatim>\<open>classes_\<close> lists each class once, that row has one entry per
  class, and the prediction is the class at the position of a maximal entry of the row.
\<close>

theorem label_is_argmax_of_scores:
  assumes served: "predict clf ev request s = (Inr response, s')"
  shows "\<exists>v probs rest pred preds.
           st_encode clf (PStr (description request)) = Inr v \<and>
           est_predict_proba clf [v] = Inr (probs # rest) \<and>
           est_predict clf [v] = Inr (pred # preds) \<and>
           response =
             [(''scores'', PDict (map (\<lambda>(k, p). (k, PFloat p)) (dict_zip (classes clf) probs))),
              (''label'', pred)] \<and>
           (\<forall>c. pred = PStr c \<and> predicts_argmax (classes clf) probs c \<longrightarrow>
              is_argmax (dict_zip (classes clf) probs) c)"
proof -
  from predict_success [OF served] obtain v probs rest pred preds where
    enc: "st_encode clf (PStr (description request)) = Inr v" and
    proba: "est_predict_proba clf [v] = Inr (probs # rest)" and
    pred: "est_predict clf [v] = Inr (pred # preds)" and
    response: "response = response_dict_of (dict_zip (classes clf) probs) pred"
    by blast
  have argmax: "is_argmax (dict_zip (classes clf) probs) c"
    if agree: "predicts_argmax (classes clf) probs c" for c
  proof -
    from agree obtain j where distinct: "distinct (classes clf)"
      and row: "length probs = length (classes clf)"
      and j: "j < length probs" and at: "c = classes clf ! j"
      and top: "\<forall>q \<in> set probs. q \<le> probs ! j"
      unfolding predicts_argmax_def by blast
    have scores: "dict_zip (classes clf) probs = zip (classes clf) probs"
      using distinct by (rule dict_zip_distinct)
    have found: "map_of (zip (classes clf) probs) c = Some (probs ! j)"
      unfolding at using row distinct j by (intro map_of_zip_nth) simp_all
    have "\<forall>(k, q) \<in> set (zip (classes clf) probs). q \<le> probs ! j"
      using top by (auto dest: set_zip_rightD)
    then have "list_all (\<lambda>(k, q). q \<le> probs ! j) (zip (classes clf) probs)"
      by (simp add: list_all_iff)
    with found scores show ?thesis
      by (simp add: is_argmax_def)
  qed
  show ?thesis
  proof (intro exI conjI allI impI)
    show "st_encode clf (PStr (description request)) = Inr v" by (rule enc)
    show "est_predict_proba clf [v] = Inr (probs # rest)" by (rule proba)
    show "est_predict clf [v] = Inr (pred # preds)" by (rule pred)
    show "response =
        [(''scores'', PDict (map (\<lambda>(k, p). (k, PFloat p)) (dict_zip (classes clf) probs))),
         (''label'', pred)]"
      using response by (simp add: response_dict_of_def scores_value_def)
    show "is_argmax (dict_zip (classes clf) probs) c"
      if "pred = PStr c \<and> predicts_argmax (classes clf) probs c" for c
      using that by (simp add: argmax)
  qed
qed

theorem label_is_argmax_of_scores_witness:
  "predict demo_clf demo_env demo_request idle =
     (Inr [(''scores'', PDict [(''BUSINESS'', PFloat (3 / 4)), (''SPORTS'', PFloat (1 / 4))]),
           (''label'', PStr ''BUSINESS'')],
      snd (predict demo_clf demo_env demo_request idle)) \<and>
   predicts_argmax [''BUSINESS'', ''SPORTS''] [3 / 4, 1 / 4] ''BUSINESS'' \<and>
   is_argmax [(''BUSINESS'', 3 / 4), (''SPORTS'', 1 / 4)] ''BUSINESS''"
proof -
  have run: "predict demo_clf demo_env demo_request idle =
     (Inr [(''scores'', PDict [(''BUSINESS'', PFloat (3 / 4)), (''SPORTS'', PFloat (1 / 4))]),
           (''label'', PStr ''BUSINESS'')],
      snd (predict demo_clf demo_env demo_request idle))"
    by (simp add: demo_run response_dict_of_def scores_value_def)
  have agree: "predicts_argmax [''BUSINESS'', ''SPORTS''] [3 / 4, 1 / 4] ''BUSINESS''"
    unfolding predicts_argmax_def by (intro conjI exI [of _ 0]) simp_all
  from label_is_argmax_of_scores [OF run]
  obtain v probs rest pred preds where
    enc: "st_encode demo_clf (PStr (description demo_request)) = Inr v" and
    proba: "est_predict_proba demo_clf [v] = Inr (probs # rest)" and
    pred: "est_predict demo_clf [v] = Inr (pred # preds)" and
    response:
      "[(''scores'', PDict [(''BUSINESS'', PFloat (3 / 4)), (''SPORTS'', PFloat (1 / 4))]),
        (''label'', PStr ''BUSINESS'')] =
       [(''scores'', PDict (map (\<lambda>(k, p). (k, PFloat p)) (dict_zip (classes demo_clf) probs))),
        (''label'', pred)]" and
    top: "\<forall>c. pred = PStr c \<and> predicts_argmax (classes demo_clf) probs c \<longrightarrow>
            is_argmax (dict_zip (classes demo_clf) probs) c"
    by (elim exE conjE) (rule that; assumption)
  from proba have probs: "probs = [3 / 4, 1 / 4]"
    by (simp add: demo_clf_def)
  from pred have label: "pred = PStr ''BUSINESS''"
    by (simp add: demo_clf_def)
  have cs: "classes demo_clf = [''BUSINESS'', ''SPORTS'']"
    by (simp add: demo_clf_def)
  from top have "pred = PStr ''BUSINESS'' \<and>
      predicts_argmax (classes demo_clf) probs ''BUSINESS'' \<longrightarrow>
      is_argmax (dict_zip (classes demo_clf) probs) ''BUSINESS''"
    by (rule spec)
  with label agree have "is_argmax (dict_zip [''BUSINESS'', ''SPORTS''] [3 / 4, 1 / 4]) ''BUSINESS''"
    unfolding probs cs by simp
  then have "is_argmax [(''BUSINESS'', 3 / 4), (''SPORTS'', 1 / 4)] ''BUSINESS''"
    by (simp add: dict_zip_def)
  with run agree show ?thesis by simp
qed

text \<open>
  C3, as stated, fails in one point: the record that a served request logs has no field
  \<^verbatim>\<open>latency_ms\<close>. Its four keys are \<^verbatim>\<open>timestamp\<close>, \<^verbatim>\<open>request\<close>, \<^verbatim>\<open>prediction\<close>
  and \<^verbatim>\<open>latency\<close> (as the handler's docstring lists them); the value under
  \<^verbatim>\<open>latency\<close> is in milliseconds.
\<close>

theorem log_record_has_no_latency_ms_counterexample:
  "logged (snd (predict demo_clf demo_env demo_request idle)) =
     [Info (PDict
        [(''timestamp'', PStr ''2023:01:15 12:00:00''),
         (''request'', PDict (request_dict_of demo_request)),
         (''prediction'', PDict
            [(''scores'', scores_value [(''BUSINESS'', 3 / 4), (''SPORTS'', 1 / 4)]),
             (''label'', PStr ''BUSINESS'')]),
         (''latency'', PFloat 250)])] \<and>
   getitem
     [(''timestamp'', PStr ''2023:01:15 12:00:00''),
      (''request'', PDict (request_dict_of demo_request)),
      (''prediction'', PDict
         [(''scores'', scores_value [(''BUSINESS'', 3 / 4), (''SPORTS'', 1 / 4)]),
          (''label'', PStr ''BUSINESS'')]),
      (''latency'', PFloat 250)] ''latency_ms'' = Inl (KeyError ''latency_ms'')"
  unfolding demo_run
  by (simp add: log_data_of_def response_dict_of_def demo_env_def getitem_def)

text \<open>
  C3, amended. Every request that the handler serves appends exactly one record to the log.
  Its fields are \<^verbatim>\<open>timestamp\<close> (a string), \<^verbatim>\<open>request\<close>, \<^verbatim>\<open>prediction\<close> and
  \<^verbatim>\<open>latency\<close> (a float); \<^verbatim>\<open>request\<close> is the dictionary of the request served,
  \<^verbatim>\<open>prediction\<close> is the response returned, and the latency is not negative, given that
  the second reading of the monotonic clock is not below the first.
\<close>

theorem served_request_logs_one_record:
  assumes served: "predict clf ev request s = (Inr response, s')"
    and clock: "t_start ev \<le> t_end ev"
  shows "\<exists>latency.
           logged s' = logged s @
             [Info (PDict
                [(''timestamp'', PStr (now_str ev)),
                 (''request'', PDict (request_dict_of request)),
                 (''prediction'', PDict response),
                 (''latency'', PFloat latency)])] \<and>
           0 \<le> latency"
proof -
  from predict_success [OF served]
  have "s' = logger_info (PDict (log_data_of ev (request_dict_of request) response))
          (note_encode (PStr (description request)) (note_encode (PStr (description request)) s))"
    by blast
  then have "logged s' = logged s @
      [Info (PDict (log_data_of ev (request_dict_of request) response))]"
    by (simp add: logger_info_def note_encode_def)
  moreover from clock have "0 \<le> 1000 * (t_end ev - t_start ev)"
    by simp
  ultimately show ?thesis
    by (auto simp: log_data_of_def)
qed

theorem served_request_logs_one_record_witness:
  "t_start demo_env \<le> t_end demo_env \<and>
   predict demo_clf demo_env demo_request idle =
     (Inr [(''scores'', scores_value [(''BUSINESS'', 3 / 4), (''SPORTS'', 1 / 4)]),
           (''label'', PStr ''BUSINESS'')],
      snd (predict demo_clf demo_env demo_request idle)) \<and>
   length (logged (snd (predict demo_clf demo_env demo_request idle))) = 1"
proof -
  have clock: "t_start demo_env \<le> t_end demo_env"
    by (simp add: demo_env_def)
  from served_request_logs_one_record [OF demo_response clock]
  have "length (logged (snd (predict demo_clf demo_env demo_request idle))) = 1"
    by (auto simp: idle_def)
  with clock demo_response show ?thesis by simp
qed

text \<open>
  C4. For a fixed artifact, two calls of the handler whose requests have the same
  description have the same outcome: the same scores and the same label, or the same
  exception. The times of the calls and the states in which they run (what has been logged
  and embedded before) do not matter.
\<close>

theorem same_description_same_outcome:
  assumes "description r1 = description r2"
  shows "fst (predict clf ev1 r1 s1) = fst (predict clf ev2 r2 s2)"
  using assms by (simp add: predict_outcome)

theorem same_description_same_outcome_witness:
  "description demo_request = description (demo_request\<lparr>title := ''other''\<rparr>) \<and>
   fst (predict demo_clf demo_env (demo_request\<lparr>title := ''other''\<rparr>)
          (snd (predict demo_clf demo_env demo_request idle))) =
     Inr [(''scores'', scores_value [(''BUSINESS'', 3 / 4), (''SPORTS'', 1 / 4)]),
          (''label'', PStr ''BUSINESS'')]"
proof -
  have same: "description demo_request = description (demo_request\<lparr>title := ''other''\<rparr>)"
    by simp
  from same_description_same_outcome [OF same, of demo_clf demo_env idle demo_env
      "snd (predict demo_clf demo_env demo_request idle)"]
  show ?thesis by (simp add: demo_outcome)
qed

text \<open>
  C5. Changing \<^verbatim>\<open>source\<close>, \<^verbatim>\<open>url\<close> and \<^verbatim>\<open>title\<close> of a request in any way changes
  neither the outcome of the handler (scores and label) nor what is handed to the
  embedding model: only \<^verbatim>\<open>description\<close> enters the inference.
\<close>

theorem only_description_influences:
  "fst (predict clf ev (request\<lparr>source := a, url := b, title := c\<rparr>) s) =
     fst (predict clf ev request s) \<and>
   encoded (snd (predict clf ev (request\<lparr>source := a, url := b, title := c\<rparr>) s)) =
     encoded (snd (predict clf ev request s))"
  by (simp add: predict_outcome predict_trace split: sum.splits list.splits)

theorem only_description_influences_witness:
  "fst (predict demo_clf demo_env
          (demo_request\<lparr>source := ''cnn'', url := ''http://y'', title := ''u''\<rparr>) idle) =
     Inr [(''scores'', scores_value [(''BUSINESS'', 3 / 4), (''SPORTS'', 1 / 4)]),
          (''label'', PStr ''BUSINESS'')]"
  using only_description_influences [where clf = demo_clf and ev = demo_env
      and request = demo_request and s = idle and a = "''cnn''" and b = "''http://y''"
      and c = "''u''"]
  by (simp add: demo_outcome)




text \<open>
  C9, as stated, fails for a request on which the first invocation raises: the exception
  leaves the handler before \<^verbatim>\<open>clf.predict_label\<close> is evaluated, so the pipeline has run
  once and the description has been embedded once.
\<close>

theorem pipeline_invoked_once_counterexample:
  "fst (predict failing_clf demo_env demo_request idle) = Inl (Raised ''RuntimeError'') \<and>
   encoded (snd (predict failing_clf demo_env demo_request idle)) =
     [PStr ''stocks rally amid earnings season'']"
  by (simp add: predict_outcome predict_trace failing_clf_def demo_clf_def demo_request_def
      idle_def)

text \<open>
  C9, amended. For every valid request the handler first calls \<^verbatim>\<open>clf.predict_proba\<close>,
  which invokes the pipeline once: the description is handed to the embedding model once.
  If that call raises (the embedding or the classifier raises, or the pipeline returns no
  row), the exception leaves the handler and the pipeline has been invoked exactly once. If
  it returns the scores, the handler invokes the pipeline a second time through
  \<^verbatim>\<open>clf.predict_label\<close>, so the description is embedded exactly twice; the second
  invocation starts from the state the first one left, its result is the same whatever the
  classifier's \<^verbatim>\<open>predict_proba\<close> reports, and when it returns a label the handler returns
  the dictionary of the scores of the first and the label of the second invocation: the
  label is not read off the scores.
\<close>

theorem pipeline_invoked_twice:
  "(\<forall>e s1. predict_proba clf (request_dict_of request) s = (Inl e, s1) \<longrightarrow>
      predict clf ev request s = (Inl e, s1) \<and>
      encoded s1 = encoded s @ [PStr (description request)])
   \<and>
   (\<forall>scores s1. predict_proba clf (request_dict_of request) s = (Inr scores, s1) \<longrightarrow>
      encoded s1 = encoded s @ [PStr (description request)] \<and>
      encoded (snd (predict clf ev request s)) =
        encoded s @ [PStr (description request), PStr (description request)] \<and>
      (\<exists>r2 s2.
         predict_label clf (request_dict_of request) s1 = (r2, s2) \<and>
         encoded s2 = encoded s1 @ [PStr (description request)] \<and>
         (\<forall>f. predict_label (clf\<lparr>est_predict_proba := f\<rparr>) (request_dict_of request) s1 =
            (r2, s2)) \<and>
         (\<forall>e. r2 = Inl e \<longrightarrow> predict clf ev request s = (Inl e, s2)) \<and>
         (\<forall>label. r2 = Inr label \<longrightarrow>
            fst (predict clf ev request s) =
              Inr [(''scores'', PDict (map (\<lambda>(k, p). (k, PFloat p)) scores)),
                   (''label'', label)])))"
proof (intro conjI allI impI)
  fix e s1
  assume first: "predict_proba clf (request_dict_of request) s = (Inl e, s1)"
  then show "predict clf ev request s = (Inl e, s1)"
    by (simp add: predict_def)
  from first show "encoded s1 = encoded s @ [PStr (description request)]"
    by (auto simp: predict_proba_request note_encode_def split: sum.splits list.splits)
next
  fix scores s1
  assume first: "predict_proba clf (request_dict_of request) s = (Inr scores, s1)"
  then show s1: "encoded s1 = encoded s @ [PStr (description request)]"
    by (auto simp: predict_proba_request note_encode_def split: sum.splits list.splits)
  from first show "encoded (snd (predict clf ev request s)) =
      encoded s @ [PStr (description request), PStr (description request)]"
    unfolding predict_trace
    by (auto simp: predict_proba_request split: sum.splits list.splits)
  obtain r2 s2 where second: "predict_label clf (request_dict_of request) s1 = (r2, s2)"
    by (cases "predict_label clf (request_dict_of request) s1")
  from second have s2: "encoded s2 = encoded s1 @ [PStr (description request)]"
    by (auto simp: predict_label_request note_encode_def split: sum.splits list.splits)
  from first second have raised: "\<forall>e. r2 = Inl e \<longrightarrow> predict clf ev request s = (Inl e, s2)"
    by (simp add: predict_def)
  from first second have returned: "\<forall>label. r2 = Inr label \<longrightarrow>
      fst (predict clf ev request s) =
        Inr [(''scores'', PDict (map (\<lambda>(k, p). (k, PFloat p)) scores)), (''label'', label)]"
    by (simp add: predict_def Let_def response_dict_of_def scores_value_def)
  from second s2 raised returned
  show "\<exists>r2 s2.
      predict_label clf (request_dict_of request) s1 = (r2, s2) \<and>
      encoded s2 = encoded s1 @ [PStr (description request)] \<and>
      (\<forall>f. predict_label (clf\<lparr>est_predict_proba := f\<rparr>) (request_dict_of request) s1 =
         (r2, s2)) \<and>
      (\<forall>e. r2 = Inl e \<longrightarrow> predict clf ev request s = (Inl e, s2)) \<and>
      (\<forall>label. r2 = Inr label \<longrightarrow>
         fst (predict clf ev request s) =
           Inr [(''scores'', PDict (map (\<lambda>(k, p). (k, PFloat p)) scores)),
                (''label'', label)])"
    by (simp add: predict_label_ignores_proba)
qed

theorem pipeline_invoked_twice_witness:
  "predict_proba demo_clf (request_dict_of demo_request) idle =
     (Inr [(''BUSINESS'', 3 / 4), (''SPORTS'', 1 / 4)],
      \<lparr>logged = [], encoded = [PStr ''stocks rally amid earnings season'']\<rparr>) \<and>
   encoded (snd (predict demo_clf demo_env demo_request idle)) =
     [PStr ''stocks rally amid earnings season'', PStr ''stocks rally amid earnings season''] \<and>
   predict_proba norow_clf (request_dict_of demo_request) idle =
     (Inl IndexError,
      \<lparr>logged = [], encoded = [PStr ''stocks rally amid earnings season'']\<rparr>) \<and>
   predict norow_clf demo_env demo_request idle =
     (Inl IndexError,
      \<lparr>logged = [], encoded = [PStr ''stocks rally amid earnings season'']\<rparr>)"
proof -
  have first: "predict_proba demo_clf (request_dict_of demo_request) idle =
     (Inr [(''BUSINESS'', 3 / 4), (''SPORTS'', 1 / 4)],
      \<lparr>logged = [], encoded = [PStr ''stocks rally amid earnings season'']\<rparr>)"
    by (simp add: predict_proba_request demo_clf_def demo_request_def idle_def dict_zip_def
        note_encode_def)
  have norow: "predict_proba norow_clf (request_dict_of demo_request) idle =
     (Inl IndexError,
      \<lparr>logged = [], encoded = [PStr ''stocks rally amid earnings season'']\<rparr>)"
    by (simp add: predict_proba_request norow_clf_def demo_clf_def demo_request_def idle_def
        note_encode_def)
  from pipeline_invoked_twice [of demo_clf demo_request idle demo_env] first
  have twice: "encoded (snd (predict demo_clf demo_env demo_request idle)) =
     encoded idle @ [PStr (description demo_request), PStr (description demo_request)]"
    by blast
  from pipeline_invoked_twice [of norow_clf demo_request idle demo_env] norow
  have once: "predict norow_clf demo_env demo_request idle =
     (Inl IndexError,
      \<lparr>logged = [], encoded = [PStr ''stocks rally amid earnings season'']\<rparr>)"
    by blast
  from first norow twice once show ?thesis
    by (simp add: demo_request_def idle_def)
qed

text \<open>
  C6. A request whose body is malformed (not an object, or a required field among
  \<^verbatim>\<open>source\<close>, \<^verbatim>\<open>url\<close>, \<^verbatim>\<open>title\<close>, \<^verbatim>\<open>description\<close> is missing or holds a value
  the field validator refuses) is answered with a client error that lists at least one
  validation error, and the process state is unchanged: the pipeline has not run and no log
  record has been appended.
\<close>

theorem malformed_body_rejected:
  assumes "malformed str_validator body"
  shows "\<exists>errs. errs \<noteq> [] \<and>
           post_predict str_validator clf ev body s = (UnprocessableEntity errs, s)"
proof (cases body)
  case (PDict d)
  with assms show ?thesis
    by (auto simp: malformed_def required_fields_def post_predict_def validate_request_def
        validate_field_def errors_of_def split: option.splits sum.splits)
qed (simp_all add: post_predict_def validate_request_def)

theorem malformed_body_rejected_witness:
  "malformed strict_str
     (PDict [(''source'', PStr ''bbc''), (''url'', PStr ''http://x''), (''title'', PStr ''t'')]) \<and>
   post_predict strict_str demo_clf demo_env
     (PDict [(''source'', PStr ''bbc''), (''url'', PStr ''http://x''), (''title'', PStr ''t'')])
     idle = (UnprocessableEntity [Missing ''description''], idle)"
proof -
  have bad: "malformed strict_str
     (PDict [(''source'', PStr ''bbc''), (''url'', PStr ''http://x''), (''title'', PStr ''t'')])"
    by (simp add: malformed_def required_fields_def)
  from malformed_body_rejected [OF bad, of demo_clf demo_env idle]
  obtain errs where "post_predict strict_str demo_clf demo_env
     (PDict [(''source'', PStr ''bbc''), (''url'', PStr ''http://x''), (''title'', PStr ''t'')])
     idle = (UnprocessableEntity errs, idle)"
    by blast
  moreover have "fst (post_predict strict_str demo_clf demo_env
     (PDict [(''source'', PStr ''bbc''), (''url'', PStr ''http://x''), (''title'', PStr ''t'')])
     idle) = UnprocessableEntity [Missing ''description'']"
    by (simp add: post_predict_def validate_request_def validate_field_def errors_of_def
        strict_str_def)
  ultimately show ?thesis using bad by simp
qed

text \<open>
  C10. A body whose four fields hold strings passes validation whatever the strings are
  (the empty string and blanks included), the validated request carries them unchanged,
  and the description is handed to the embedding model. Hence validation rejects a body
  only when a field is missing or is not a string.
\<close>

theorem string_fields_pass_validation:
  assumes sv: "accepts_strings str_validator"
    and fields: "map_of d ''source'' = Some (PStr a)" "map_of d ''url'' = Some (PStr b)"
      "map_of d ''title'' = Some (PStr c)" "map_of d ''description'' = Some (PStr x)"
  shows "validate_request str_validator (PDict d) =
           Inr \<lparr>source = a, url = b, title = c, description = x\<rparr> \<and>
         (\<exists>rest. encoded (snd (post_predict str_validator clf ev (PDict d) s)) =
            encoded s @ PStr x # rest)"
proof -
  from sv fields have ok: "validate_request str_validator (PDict d) =
      Inr \<lparr>source = a, url = b, title = c, description = x\<rparr>"
    by (simp add: accepts_strings_def validate_request_def validate_field_def)
  have "\<exists>rest. encoded (snd (post_predict str_validator clf ev (PDict d) s)) =
      encoded s @ PStr x # rest"
    unfolding post_predict_valid [OF ok]
    by (simp add: predict_trace split: sum.splits list.splits)
  with ok show ?thesis by simp
qed

theorem string_fields_pass_validation_witness:
  "accepts_strings strict_str \<and>
   validate_request strict_str
     (PDict [(''source'', PStr ''bbc''), (''url'', PStr ''http://x''), (''title'', PStr ''t''),
             (''description'', PStr '''')]) =
     Inr \<lparr>source = ''bbc'', url = ''http://x'', title = ''t'', description = ''''\<rparr> \<and>
   validate_request strict_str
     (PDict [(''source'', PStr ''bbc''), (''url'', PStr ''http://x''), (''title'', PStr ''t''),
             (''description'', PStr ''  '')]) =
     Inr \<lparr>source = ''bbc'', url = ''http://x'', title = ''t'', description = ''  ''\<rparr> \<and>
   encoded (snd (post_predict strict_str demo_clf demo_env
     (PDict [(''source'', PStr ''bbc''), (''url'', PStr ''http://x''), (''title'', PStr ''t''),
             (''description'', PStr '''')]) idle)) = [PStr '''', PStr '''']"
proof -
  have sv: "accepts_strings strict_str"
    by (simp add: accepts_strings_def strict_str_def)
  have empty: "validate_request strict_str
     (PDict [(''source'', PStr ''bbc''), (''url'', PStr ''http://x''), (''title'', PStr ''t''),
             (''description'', PStr '''')]) =
     Inr \<lparr>source = ''bbc'', url = ''http://x'', title = ''t'', description = ''''\<rparr>"
    by (rule string_fields_pass_validation [OF sv, THEN conjunct1]) simp_all
  have blank: "validate_request strict_str
     (PDict [(''source'', PStr ''bbc''), (''url'', PStr ''http://x''), (''title'', PStr ''t''),
             (''description'', PStr ''  '')]) =
     Inr \<lparr>source = ''bbc'', url = ''http://x'', title = ''t'', description = ''  ''\<rparr>"
    by (rule string_fields_pass_validation [OF sv, THEN conjunct1]) simp_all
  have "encoded (snd (post_predict strict_str demo_clf demo_env
     (PDict [(''source'', PStr ''bbc''), (''url'', PStr ''http://x''), (''title'', PStr ''t''),
             (''description'', PStr '''')]) idle)) = [PStr '''', PStr '''']"
    unfolding post_predict_valid [OF empty]
    by (simp add: predict_trace demo_clf_def idle_def)
  with sv empty blank show ?thesis by simp
qed

end
